theory Spec2Isabelle
  imports Complex_Main
begin

section \<open>The system prompt router (system-prompt-router/prompt_router.py)\<close>

text \<open>
  A shallow embedding of the class \<^verbatim>\<open>SystemPromptRouter\<close>. Conventions:

  \<^item> A Python \<^verbatim>\<open>dict\<close> is an association list in insertion order; a well-formed
    dictionary has distinct keys. Reading a key is \<open>map_of\<close>, writing one is \<open>setitem\<close>.
  \<^item> The values of the prompt library are the two-key dictionaries
    \<^verbatim>\<open>{"description": ..., "system_prompt": ...}\<close> of the type annotation
    \<^verbatim>\<open>Dict[str, Dict[str, str]]\<close>: the record \<open>prompt_data\<close>.
  \<^item> Floating-point numbers are idealised as \<open>real\<close> (no rounding, no NaN, no infinity).
    An embedding is a \<open>real list\<close>, the embedding matrix a list of rows.
  \<^item> The sentence-transformer model is the field \<open>embedding_model\<close>, a function from a
    text to its vector; \<^verbatim>\<open>encode\<close> embeds each text of a list on its own, in order.
    All vectors of one model have the same length, so \<^verbatim>\<open>np.dot\<close> never fails on shapes.
  \<^item> \<^verbatim>\<open>load_prompt_library\<close> takes the dictionary it is given by value: what the caller
    does to that object afterwards is outside the model.
  \<^item> The OpenAI client is the field \<open>openai_client\<close>: given the model name and the
    messages it either raises an exception (its \<^verbatim>\<open>str(e)\<close> is kept) or returns a
    completion.
  \<^item> A raised exception is the \<open>Inl\<close> of a sum type.
\<close>

subsection \<open>Data\<close>

record prompt_data =
  description :: string
  system_prompt :: string

type_synonym library = "(string \<times> prompt_data) list"

datatype error =
    ValueError string
  | IndexError
  | KeyError string

datatype 'a outcome = Raises string | Returns 'a

record completion =
  choices :: "string option list"
  usage :: "(string \<times> nat) list option"

datatype pyval =
    Str string
  | Float real
  | NoneVal
  | Usage "(string \<times> nat) list"

type_synonym result_dict = "(string \<times> pyval) list"

record router =
  embedding_model :: "string \<Rightarrow> real list"
  openai_model :: string
  openai_client :: "string \<Rightarrow> (string \<times> string) list \<Rightarrow> completion outcome"
  prompt_library :: library
  prompt_embeddings :: "real list list option"
  prompt_names :: "string list"

subsection \<open>Python and numpy primitives\<close>

text \<open>\<^verbatim>\<open>d[k] = v\<close>: an existing key keeps its place, a new key goes to the end.\<close>

fun setitem :: "'k \<Rightarrow> 'v \<Rightarrow> ('k \<times> 'v) list \<Rightarrow> ('k \<times> 'v) list" where
  "setitem k v [] = [(k, v)]"
| "setitem k v ((k', v') # d) = (if k' = k then (k, v) # d else (k', v') # setitem k v d)"

text \<open>Truthiness of an \<^verbatim>\<open>Optional[str]\<close>, and \<^verbatim>\<open>a or b\<close>.\<close>

definition truthy :: "string option \<Rightarrow> bool" where
  "truthy x = (case x of None \<Rightarrow> False | Some t \<Rightarrow> t \<noteq> [])"

definition py_or :: "string option \<Rightarrow> string option \<Rightarrow> string option" where
  "py_or a b = (if truthy a then a else b)"

text \<open>\<^verbatim>\<open>xs[:k]\<close>: a negative \<open>k\<close> counts from the end.\<close>

definition slice_to :: "int \<Rightarrow> 'a list \<Rightarrow> 'a list" where
  "slice_to k xs = (if 0 \<le> k then take (nat k) xs else take (length xs - nat (- k)) xs)"

text \<open>\<^verbatim>\<open>SentenceTransformer.encode(texts)\<close>: one row per text, in order.\<close>

definition encode :: "(string \<Rightarrow> real list) \<Rightarrow> string list \<Rightarrow> real list list" where
  "encode m texts = map m texts"

text \<open>The inner product of two vectors: the sum of the products of their components.\<close>

definition dot :: "real list \<Rightarrow> real list \<Rightarrow> real" where
  "dot u v = sum_list (map (\<lambda>(a, b). a * b) (zip u v))"

text \<open>\<^verbatim>\<open>np.dot(a, b.T)\<close> for two matrices given by their rows, and \<^verbatim>\<open>.flatten()\<close>.\<close>

definition dot_T :: "real list list \<Rightarrow> real list list \<Rightarrow> real list list" where
  "dot_T a b = map (\<lambda>p. map (\<lambda>q. dot p q) b) a"

definition flatten :: "'a list list \<Rightarrow> 'a list" where
  "flatten m = concat m"

text \<open>
  \<^verbatim>\<open>np.argsort(xs)\<close> is called with its default kind, which numpy documents as not
  stable: the result lists every index of \<open>xs\<close> once, in ascending order of value, and
  the order among the indices of equal values is not fixed. The function is therefore a
  parameter \<open>np_argsort\<close> of the query, and \<open>ascending_argsort\<close> is all that is known of
  it.
\<close>

definition ascending_argsort :: "(real list \<Rightarrow> nat list) \<Rightarrow> bool" where
  "ascending_argsort np_argsort =
     (\<forall>xs. distinct (np_argsort xs) \<and> set (np_argsort xs) = {0..<length xs} \<and>
           sorted (map (\<lambda>i. xs ! i) (np_argsort xs)))"

subsection \<open>Construction and mutation\<close>

definition no_api_key :: error where
  "no_api_key =
     ValueError ''OpenAI API key not found. Please set OPENAI_API_KEY environment variable.''"

definition no_prompts_loaded :: error where
  "no_prompts_loaded = ValueError ''No prompts loaded. Please add prompts first.''"

text \<open>
  \<^verbatim>\<open>__init__\<close>; \<open>env_api_key\<close> is \<^verbatim>\<open>os.getenv("OPENAI_API_KEY")\<close> and \<open>client\<close> the
  client that \<^verbatim>\<open>OpenAI(api_key=api_key)\<close> builds.
\<close>

definition init ::
  "(string \<Rightarrow> real list) \<Rightarrow> string \<Rightarrow> string option \<Rightarrow> string option \<Rightarrow>
   (string \<Rightarrow> (string \<times> string) list \<Rightarrow> completion outcome) \<Rightarrow> error + router" where
  "init embedding openai_model_name openai_api_key env_api_key client =
     (let api_key = py_or openai_api_key env_api_key in
      if \<not> truthy api_key then Inl no_api_key
      else Inr \<lparr>embedding_model = embedding, openai_model = openai_model_name,
                openai_client = client, prompt_library = [], prompt_embeddings = None,
                prompt_names = []\<rparr>)"

definition compute_prompt_embeddings :: "router \<Rightarrow> router" where
  "compute_prompt_embeddings s =
     (if prompt_library s = [] then s
      else
        let descriptions = map (\<lambda>(name, data). description data) (prompt_library s);
            names = map (\<lambda>(name, data). name) (prompt_library s)
        in s\<lparr>prompt_names := names,
              prompt_embeddings := Some (encode (embedding_model s) descriptions)\<rparr>)"

definition add_prompt :: "string \<Rightarrow> string \<Rightarrow> string \<Rightarrow> router \<Rightarrow> router" where
  "add_prompt name descr sys_prompt s =
     compute_prompt_embeddings
       (s\<lparr>prompt_library :=
            setitem name \<lparr>description = descr, system_prompt = sys_prompt\<rparr> (prompt_library s)\<rparr>)"

definition load_prompt_library :: "library \<Rightarrow> router \<Rightarrow> router" where
  "load_prompt_library prompts s = compute_prompt_embeddings (s\<lparr>prompt_library := prompts\<rparr>)"

subsection \<open>Queries\<close>

text \<open>
  The loop over \<^verbatim>\<open>top_indices\<close> that builds \<^verbatim>\<open>results\<close>. Reading
  \<^verbatim>\<open>self.prompt_names[idx]\<close> or \<^verbatim>\<open>similarities[idx]\<close> out of range raises, as does
  a name that is not a key of the library.
\<close>

fun collect :: "router \<Rightarrow> real list \<Rightarrow> nat list \<Rightarrow> error + (string \<times> real \<times> string) list" where
  "collect s similarities [] = Inr []"
| "collect s similarities (idx # rest) =
     (if length (prompt_names s) \<le> idx then Inl IndexError
      else if length similarities \<le> idx then Inl IndexError
      else
        let prompt_name = prompt_names s ! idx;
            similarity_score = similarities ! idx
        in case map_of (prompt_library s) prompt_name of
             None \<Rightarrow> Inl (KeyError prompt_name)
           | Some data \<Rightarrow>
               (case collect s similarities rest of
                  Inl e \<Rightarrow> Inl e
                | Inr results \<Rightarrow>
                    Inr ((prompt_name, similarity_score, system_prompt data) # results)))"

definition find_best_prompt ::
  "(real list \<Rightarrow> nat list) \<Rightarrow> router \<Rightarrow> string \<Rightarrow> int \<Rightarrow>
   error + (string \<times> real \<times> string) list" where
  "find_best_prompt np_argsort s user_query top_k =
     (if prompt_library s = [] \<or> prompt_embeddings s = None then Inl no_prompts_loaded
      else
        let query_embedding = encode (embedding_model s) [user_query];
            similarities = flatten (dot_T (the (prompt_embeddings s)) query_embedding);
            top_indices = slice_to top_k (rev (np_argsort similarities))
        in collect s similarities top_indices)"

definition get_prompt_details :: "router \<Rightarrow> string \<Rightarrow> prompt_data option" where
  "get_prompt_details s prompt_name = map_of (prompt_library s) prompt_name"

definition list_prompts :: "router \<Rightarrow> (string \<times> string) list" where
  "list_prompts s = map (\<lambda>(name, data). (name, description data)) (prompt_library s)"

text \<open>
  The first part of \<^verbatim>\<open>generate_response\<close>: which system prompt is used. It yields
  \<^verbatim>\<open>(matched_prompt, similarity_score, system_prompt)\<close> or raises.
\<close>

definition select_prompt ::
  "(real list \<Rightarrow> nat list) \<Rightarrow> router \<Rightarrow> string \<Rightarrow> bool \<Rightarrow> string option \<Rightarrow>
   error + (string \<times> pyval \<times> string)" where
  "select_prompt np_argsort s user_query use_best_prompt custom_system_prompt =
     (if truthy custom_system_prompt then
        Inr (''custom'', NoneVal, the custom_system_prompt)
      else if use_best_prompt then
        (case find_best_prompt np_argsort s user_query 1 of
           Inl e \<Rightarrow> Inl e
         | Inr best_matches \<Rightarrow>
             (case best_matches of
                [] \<Rightarrow> Inl (ValueError ''No prompts available for matching'')
              | (matched_prompt, similarity_score, sys_prompt) # _ \<Rightarrow>
                  Inr (matched_prompt, Float similarity_score, sys_prompt)))
      else
        Inl (ValueError
          ''Either use_best_prompt must be True or custom_system_prompt must be provided''))"

definition error_result :: "string \<Rightarrow> string \<Rightarrow> pyval \<Rightarrow> string \<Rightarrow> result_dict" where
  "error_result e matched_prompt similarity_score sys_prompt =
     [(''error'', Str e),
      (''matched_prompt'', Str matched_prompt),
      (''similarity_score'', similarity_score),
      (''system_prompt_used'', Str sys_prompt)]"

text \<open>
  The \<^verbatim>\<open>try\<close> block of \<^verbatim>\<open>generate_response\<close> and its \<^verbatim>\<open>except Exception\<close> handler.
  \<^verbatim>\<open>response.choices[0]\<close> on an empty list raises inside the block and is caught like a
  failure of the call itself.
\<close>

definition generate_response ::
  "(real list \<Rightarrow> nat list) \<Rightarrow> router \<Rightarrow> string \<Rightarrow> bool \<Rightarrow> string option \<Rightarrow>
   error + result_dict" where
  "generate_response np_argsort s user_query use_best_prompt custom_system_prompt =
     (case select_prompt np_argsort s user_query use_best_prompt custom_system_prompt of
        Inl e \<Rightarrow> Inl e
      | Inr (matched_prompt, similarity_score, sys_prompt) \<Rightarrow>
          (case openai_client s (openai_model s)
                  [(''system'', sys_prompt), (''user'', user_query)] of
             Raises e \<Rightarrow> Inr (error_result e matched_prompt similarity_score sys_prompt)
           | Returns response \<Rightarrow>
               (case choices response of
                  [] \<Rightarrow>
                    Inr (error_result ''list index out of range''
                           matched_prompt similarity_score sys_prompt)
                | content # _ \<Rightarrow>
                    Inr [(''response'', (case content of None \<Rightarrow> NoneVal | Some t \<Rightarrow> Str t)),
                         (''matched_prompt'', Str matched_prompt),
                         (''similarity_score'', similarity_score),
                         (''system_prompt_used'', Str sys_prompt),
                         (''model_used'', Str (openai_model s)),
                         (''usage'', (case usage response of
                                        None \<Rightarrow> NoneVal | Some u \<Rightarrow> Usage u))])))"

subsection \<open>The states the interface can produce\<close>

inductive reachable :: "router \<Rightarrow> bool" where
  reachable_init:
    "init embedding model_name api_key env_key client = Inr s \<Longrightarrow> reachable s"
| reachable_add:
    "reachable s \<Longrightarrow> reachable (add_prompt name descr sys_prompt s)"
| reachable_load:
    "reachable s \<Longrightarrow> distinct (map fst prompts) \<Longrightarrow> reachable (load_prompt_library prompts s)"

subsection \<open>Derived notions used in the properties\<close>

text \<open>
  The cache is aligned with the library when the name list is the list of keys and row
  \<open>i\<close> of the matrix is the embedding of the description of entry \<open>i\<close>.
\<close>

definition aligned :: "router \<Rightarrow> bool" where
  "aligned s =
     (prompt_names s = map fst (prompt_library s) \<and>
      prompt_embeddings s =
        Some (map (\<lambda>(name, data). embedding_model s (description data)) (prompt_library s)))"

text \<open>
  The similarity of every library entry to a query, in library order.
\<close>

definition scores :: "router \<Rightarrow> string \<Rightarrow> real list" where
  "scores s user_query =
     map (\<lambda>(name, data). dot (embedding_model s (description data)) (embedding_model s user_query))
       (prompt_library s)"

text \<open>
  The place of a name in the library, counted from 0 in insertion order.
\<close>

definition insertion_index :: "library \<Rightarrow> string \<Rightarrow> nat" where
  "insertion_index lib name = length (takeWhile (\<lambda>(n, data). n \<noteq> name) lib)"

text \<open>
  Two orders on a result list. \<open>first_inserted_wins\<close> follows the words of the
  specification: descending score, and among equal scores the entry inserted first comes
  first. \<open>descending_any_ties\<close> is the same with no rule for equal scores.
\<close>

definition first_inserted_wins :: "library \<Rightarrow> (string \<times> real \<times> string) list \<Rightarrow> bool" where
  "first_inserted_wins lib results =
     sorted_wrt (\<lambda>(n1, s1, p1) (n2, s2, p2).
        s2 < s1 \<or> (s1 = s2 \<and> insertion_index lib n1 < insertion_index lib n2)) results"

definition descending_any_ties :: "(string \<times> real \<times> string) list \<Rightarrow> bool" where
  "descending_any_ties results =
     sorted_wrt (\<lambda>(n1, s1, p1) (n2, s2, p2). s2 < s1 \<or> s1 = s2) results"

text \<open>
  The result rows are entries of the library: each name is a key, and the row carries the
  system prompt stored under it and the similarity of its description to the query.
\<close>

definition library_rows :: "router \<Rightarrow> string \<Rightarrow> (string \<times> real \<times> string) list \<Rightarrow> bool" where
  "library_rows s user_query results =
     list_all (\<lambda>(name, score, payload).
        case map_of (prompt_library s) name of
          None \<Rightarrow> False
        | Some data \<Rightarrow>
            payload = system_prompt data \<and>
            score = dot (embedding_model s (description data)) (embedding_model s user_query))
       results"

subsection \<open>Example routers\<close>

text \<open>
  Two functions that meet the contract of \<^verbatim>\<open>np.argsort\<close>: a stable insertion sort, which
  lists the indices of equal values upwards, and one that lists them downwards.
\<close>

definition insertion_argsort :: "real list \<Rightarrow> nat list" where
  "insertion_argsort xs = sort_key (\<lambda>i. xs ! i) [0..<length xs]"

definition downward_ties_argsort :: "real list \<Rightarrow> nat list" where
  "downward_ties_argsort xs = rev (sort_key (\<lambda>i. - (xs ! i)) [0..<length xs])"

text \<open>
  A toy embedding model (a text of \<open>n\<close> characters becomes the vector \<open>[n, 1]\<close>) and a
  client whose every call raises, as in \<^verbatim>\<open>test_generate_response_error\<close>.
\<close>

definition count_embedder :: "string \<Rightarrow> real list" where
  "count_embedder t = [real (length t), 1]"

definition failing_client :: "string \<Rightarrow> (string \<times> string) list \<Rightarrow> completion outcome" where
  "failing_client model_name messages = Raises ''API Error''"

definition fresh_router :: router where
  "fresh_router =
     \<lparr>embedding_model = count_embedder, openai_model = ''gpt-3.5-turbo'',
      openai_client = failing_client, prompt_library = [], prompt_embeddings = None,
      prompt_names = []\<rparr>"

definition two_alike :: router where
  "two_alike =
     add_prompt ''b'' ''same'' ''pb'' (add_prompt ''a'' ''same'' ''pa'' fresh_router)"

definition two_topics :: router where
  "two_topics =
     load_prompt_library
       [(''code'', \<lparr>description = ''programming help'', system_prompt = ''You are a coding assistant.''\<rparr>),
        (''cooking'', \<lparr>description = ''recipes and meals'', system_prompt = ''You are a cooking assistant.''\<rparr>)]
       fresh_router"

definition one_prompt :: router where
  "one_prompt = add_prompt ''test_prompt'' ''Test prompt'' ''You are a test assistant.'' fresh_router"

definition emptied :: router where
  "emptied = load_prompt_library [] (add_prompt ''a'' ''same'' ''pa'' fresh_router)"

section \<open>Lemmas\<close>

subsection \<open>Dictionaries\<close>

lemma map_of_setitem: "map_of (setitem k v d) = (map_of d)(k \<mapsto> v)"
  by (induction k v d rule: setitem.induct) (auto simp: fun_eq_iff)

lemma keys_setitem: "fst ` set (setitem k v d) = insert k (fst ` set d)"
  by (induction k v d rule: setitem.induct) auto

lemma distinct_setitem: "distinct (map fst d) \<Longrightarrow> distinct (map fst (setitem k v d))"
  by (induction k v d rule: setitem.induct) (auto simp: keys_setitem)

lemma setitem_nonempty: "setitem k v d \<noteq> []"
  by (induction k v d rule: setitem.induct) auto

lemma length_setitem_present: "k \<in> fst ` set d \<Longrightarrow> length (setitem k v d) = length d"
  by (induction k v d rule: setitem.induct) auto

subsection \<open>Mutations and the cache\<close>

lemma compute_library [simp]: "prompt_library (compute_prompt_embeddings s) = prompt_library s"
  by (simp add: compute_prompt_embeddings_def Let_def)

lemma compute_model [simp]: "embedding_model (compute_prompt_embeddings s) = embedding_model s"
  by (simp add: compute_prompt_embeddings_def Let_def)

lemma compute_aligned: "prompt_library s \<noteq> [] \<Longrightarrow> aligned (compute_prompt_embeddings s)"
  by (simp add: aligned_def compute_prompt_embeddings_def Let_def encode_def case_prod_unfold comp_def)

lemma add_prompt_library:
  "prompt_library (add_prompt n d p s) = setitem n \<lparr>description = d, system_prompt = p\<rparr> (prompt_library s)"
  by (simp add: add_prompt_def)

lemma load_library: "prompt_library (load_prompt_library prompts s) = prompts"
  by (simp add: load_prompt_library_def)

lemma add_prompt_aligned: "aligned (add_prompt n d p s)"
  unfolding add_prompt_def by (rule compute_aligned) (simp add: setitem_nonempty)

lemma load_aligned: "prompts \<noteq> [] \<Longrightarrow> aligned (load_prompt_library prompts s)"
  unfolding load_prompt_library_def by (rule compute_aligned) simp

lemma load_empty_unchanged:
  "prompt_embeddings (load_prompt_library [] s) = prompt_embeddings s \<and>
   prompt_names (load_prompt_library [] s) = prompt_names s"
  by (simp add: load_prompt_library_def compute_prompt_embeddings_def)

lemma aligned_rows:
  assumes "aligned s"
  shows "\<exists>m. prompt_embeddings s = Some m \<and>
             length m = length (prompt_library s) \<and>
             length (prompt_names s) = length (prompt_library s) \<and>
             (\<forall>i < length (prompt_library s).
                prompt_names s ! i = fst (prompt_library s ! i) \<and>
                m ! i = embedding_model s (description (snd (prompt_library s ! i))))"
  using assms by (simp add: aligned_def case_prod_unfold)

text \<open>
  Every state the interface produces has distinct keys, and an aligned cache as soon as
  its library is not empty.
\<close>

lemma reachable_distinct: "reachable s \<Longrightarrow> distinct (map fst (prompt_library s))"
proof (induction rule: reachable.induct)
  case (reachable_init embedding model_name api_key env_key client s)
  then show ?case by (auto simp: init_def Let_def split: if_splits)
next
  case (reachable_add s name descr sys_prompt)
  then show ?case by (simp add: add_prompt_library distinct_setitem)
next
  case (reachable_load s prompts)
  then show ?case by (simp add: load_library)
qed

lemma reachable_aligned: "reachable s \<Longrightarrow> prompt_library s \<noteq> [] \<Longrightarrow> aligned s"
proof (induction rule: reachable.induct)
  case (reachable_init embedding model_name api_key env_key client s)
  then show ?case by (auto simp: init_def Let_def split: if_splits)
next
  case (reachable_add s name descr sys_prompt)
  show ?case by (rule add_prompt_aligned)
next
  case (reachable_load s prompts)
  then show ?case by (simp add: load_library load_aligned)
qed

subsection \<open>Sorting and slicing\<close>

text \<open>What the contract of \<^verbatim>\<open>np.argsort\<close> gives.\<close>

lemma argsort_set: "ascending_argsort np_argsort \<Longrightarrow> set (np_argsort xs) = {0..<length xs}"
  by (simp add: ascending_argsort_def)

lemma argsort_distinct: "ascending_argsort np_argsort \<Longrightarrow> distinct (np_argsort xs)"
  by (simp add: ascending_argsort_def)

lemma argsort_sorted:
  "ascending_argsort np_argsort \<Longrightarrow> sorted_wrt (\<lambda>i j. xs ! i \<le> xs ! j) (np_argsort xs)"
  by (simp add: ascending_argsort_def sorted_map)

lemma argsort_length:
  assumes "ascending_argsort np_argsort"
  shows "length (np_argsort xs) = length xs"
proof -
  have "length (np_argsort xs) = card (set (np_argsort xs))"
    using argsort_distinct [OF assms] by (simp add: distinct_card)
  then show ?thesis by (simp add: argsort_set [OF assms])
qed

lemma insertion_argsort_ascending: "ascending_argsort insertion_argsort"
  by (simp add: ascending_argsort_def insertion_argsort_def)

lemma downward_ties_argsort_ascending: "ascending_argsort downward_ties_argsort"
proof -
  have "sorted (map (\<lambda>i. xs ! i) (rev (sort_key (\<lambda>i. - (xs ! i)) [0..<length xs])))"
    for xs :: "real list"
  proof -
    have "sorted (map (\<lambda>i. - (xs ! i)) (sort_key (\<lambda>i. - (xs ! i)) [0..<length xs]))"
      by (rule sorted_sort_key)
    then have "sorted_wrt (\<lambda>i j. xs ! j \<le> xs ! i) (sort_key (\<lambda>i. - (xs ! i)) [0..<length xs])"
      by (simp add: sorted_map)
    then show ?thesis by (simp add: sorted_map sorted_wrt_rev)
  qed
  then show ?thesis by (simp add: ascending_argsort_def downward_ties_argsort_def)
qed

lemma slice_to_subset: "set (slice_to k xs) \<subseteq> set xs"
  by (auto simp: slice_to_def dest: in_set_takeD)

lemma sorted_wrt_slice_to: "sorted_wrt R xs \<Longrightarrow> sorted_wrt R (slice_to k xs)"
  by (simp add: slice_to_def sorted_wrt_take)

lemma length_slice_to: "0 \<le> k \<Longrightarrow> length (slice_to k xs) = min (nat k) (length xs)"
  by (simp add: slice_to_def)

lemma distinct_slice_to: "distinct xs \<Longrightarrow> distinct (slice_to k xs)"
  by (simp add: slice_to_def)

lemma slice_to_all: "int (length xs) \<le> k \<Longrightarrow> slice_to k xs = xs"
  by (simp add: slice_to_def)

lemma ranking_descending:
  assumes "ascending_argsort np_argsort"
  shows "sorted_wrt (\<lambda>i j. sc ! j \<le> sc ! i) (slice_to k (rev (np_argsort sc)))"
proof -
  have "sorted_wrt (\<lambda>i j. sc ! j \<le> sc ! i) (rev (np_argsort sc))"
    using argsort_sorted [OF assms, of sc] by (simp add: sorted_wrt_rev)
  then show ?thesis by (rule sorted_wrt_slice_to)
qed

lemma ranking_bound:
  "ascending_argsort np_argsort \<Longrightarrow> i \<in> set (slice_to k (rev (np_argsort sc))) \<Longrightarrow>
   i < length sc"
  using slice_to_subset [of k "rev (np_argsort sc)"] by (auto simp: argsort_set)

lemma ranking_distinct:
  "ascending_argsort np_argsort \<Longrightarrow> distinct (slice_to k (rev (np_argsort sc)))"
  by (simp add: distinct_slice_to argsort_distinct)

subsection \<open>Queries\<close>

lemma similarities_rows:
  "flatten (dot_T m (encode em [q])) = map (\<lambda>p. dot p (em q)) m"
  by (induction m) (simp_all add: flatten_def dot_T_def encode_def)

lemma collect_results:
  "collect s sims idxs = Inr rs \<Longrightarrow>
   (\<forall>i \<in> set idxs. i < length (prompt_names s) \<and> i < length sims) \<and>
   rs = map (\<lambda>i. (prompt_names s ! i, sims ! i,
                   system_prompt (the (map_of (prompt_library s) (prompt_names s ! i))))) idxs"
proof (induction idxs arbitrary: rs)
  case Nil
  then show ?case by simp
next
  case (Cons idx rest)
  then show ?case
    by (auto simp: Let_def split: if_splits option.splits sum.splits)
qed

lemma collect_no_value_error: "collect s sims idxs \<noteq> Inl (ValueError m)"
  by (induction idxs) (auto simp: Let_def split: option.splits sum.splits)

lemma collect_aligned:
  assumes "prompt_names s = map fst (prompt_library s)"
    and "distinct (map fst (prompt_library s))"
    and "\<forall>i \<in> set idxs. i < length (prompt_library s) \<and> i < length sims"
  shows "collect s sims idxs =
         Inr (map (\<lambda>i. (fst (prompt_library s ! i), sims ! i,
                         system_prompt (snd (prompt_library s ! i)))) idxs)"
  using assms(3)
proof (induction idxs)
  case Nil
  then show ?case by simp
next
  case (Cons idx rest)
  then have idx: "idx < length (prompt_library s)" "idx < length sims" by simp_all
  from idx(1)
  have "(fst (prompt_library s ! idx), snd (prompt_library s ! idx)) \<in> set (prompt_library s)"
    by simp
  with assms(2) have "map_of (prompt_library s) (fst (prompt_library s ! idx)) =
      Some (snd (prompt_library s ! idx))"
    by (simp only: map_of_eq_Some_iff)
  with Cons idx assms(1) show ?case by (simp add: Let_def)
qed

lemma length_scores: "length (scores s q) = length (prompt_library s)"
  by (simp add: scores_def)

text \<open>
  With an aligned cache the query returns the rows of the ranking, and never raises.
\<close>

lemma find_best_prompt_aligned:
  assumes "ascending_argsort np_argsort"
    and "aligned s" and "distinct (map fst (prompt_library s))" and "prompt_library s \<noteq> []"
  shows "find_best_prompt np_argsort s q k =
         Inr (map (\<lambda>i. (fst (prompt_library s ! i), scores s q ! i,
                         system_prompt (snd (prompt_library s ! i))))
                (slice_to k (rev (np_argsort (scores s q)))))"
proof -
  from assms(2) have names: "prompt_names s = map fst (prompt_library s)"
    and emb: "prompt_embeddings s =
        Some (map (\<lambda>(name, data). embedding_model s (description data)) (prompt_library s))"
    by (simp_all add: aligned_def)
  have sims: "flatten (dot_T (map (\<lambda>(name, data). embedding_model s (description data))
        (prompt_library s)) (encode (embedding_model s) [q])) = scores s q"
    by (simp add: similarities_rows scores_def case_prod_unfold comp_def)
  have "\<forall>i \<in> set (slice_to k (rev (np_argsort (scores s q)))).
          i < length (prompt_library s) \<and> i < length (scores s q)"
    using ranking_bound [OF assms(1), of _ k "scores s q"] by (simp add: length_scores)
  from collect_aligned [OF names assms(3) this] show ?thesis
    using assms(4) emb by (simp add: find_best_prompt_def Let_def sims)
qed

text \<open>
  The rows of a ranking are entries of the library, each at most once.
\<close>

lemma ranking_rows:
  assumes "distinct (map fst (prompt_library s))"
    and "\<forall>i \<in> set idxs. i < length (prompt_library s)"
  shows "library_rows s q
           (map (\<lambda>i. (fst (prompt_library s ! i), scores s q ! i,
                       system_prompt (snd (prompt_library s ! i)))) idxs)"
proof -
  have "map_of (prompt_library s) (fst (prompt_library s ! i)) = Some (snd (prompt_library s ! i)) \<and>
        scores s q ! i =
          dot (embedding_model s (description (snd (prompt_library s ! i)))) (embedding_model s q)"
    if "i \<in> set idxs" for i
  proof -
    from that assms(2) have i: "i < length (prompt_library s)" by simp
    then have "(fst (prompt_library s ! i), snd (prompt_library s ! i)) \<in> set (prompt_library s)"
      by simp
    with assms(1) have "map_of (prompt_library s) (fst (prompt_library s ! i)) =
        Some (snd (prompt_library s ! i))"
      by (simp only: map_of_eq_Some_iff)
    moreover have "scores s q ! i =
          dot (embedding_model s (description (snd (prompt_library s ! i)))) (embedding_model s q)"
      using i by (simp add: scores_def case_prod_unfold)
    ultimately show ?thesis by simp
  qed
  then show ?thesis by (simp add: library_rows_def list_all_iff)
qed

lemma ranking_names_distinct:
  assumes "distinct (map fst (prompt_library s))" and "distinct idxs"
    and "\<forall>i \<in> set idxs. i < length (prompt_library s)"
  shows "distinct (map fst (map (\<lambda>i. (fst (prompt_library s ! i), scores s q ! i,
                       system_prompt (snd (prompt_library s ! i)))) idxs))"
proof -
  have "inj_on (\<lambda>i. fst (prompt_library s ! i)) (set idxs)"
  proof (rule inj_onI)
    fix i j assume "i \<in> set idxs" "j \<in> set idxs"
      and eq: "fst (prompt_library s ! i) = fst (prompt_library s ! j)"
    with assms(3) have ij: "i < length (prompt_library s)" "j < length (prompt_library s)"
      by simp_all
    with eq have "map fst (prompt_library s) ! i = map fst (prompt_library s) ! j"
      by simp
    with assms(1) ij show "i = j" by (metis length_map nth_eq_iff_index_eq)
  qed
  with assms(2) show ?thesis by (simp add: comp_def distinct_map)
qed

lemma ranking_names_all:
  "set (map fst (map (\<lambda>i. (fst (prompt_library s ! i), scores s q ! i,
                       system_prompt (snd (prompt_library s ! i)))) idxs)) =
   (\<lambda>i. fst (prompt_library s ! i)) ` set idxs"
  by (simp add: comp_def)

lemma keys_by_index:
  "(\<lambda>i. fst (lib ! i)) ` {0..<length lib} = fst ` set lib"
proof -
  have "set lib = (\<lambda>i. lib ! i) ` {0..<length lib}"
    by (simp add: set_conv_nth image_def) (metis atLeastLessThan_iff zero_le)
  then show ?thesis by (simp add: image_image)
qed

subsection \<open>The example routers, evaluated\<close>

lemma init_fresh: "init count_embedder ''gpt-3.5-turbo'' (Some ''test-key'') None failing_client = Inr fresh_router"
  by (simp add: init_def py_or_def truthy_def fresh_router_def)

lemma reachable_fresh: "reachable fresh_router"
  using init_fresh by (rule reachable_init)

lemma reachable_two_alike: "reachable two_alike"
  unfolding two_alike_def by (intro reachable_add reachable_fresh)

lemma two_alike_library:
  "prompt_library two_alike =
     [(''a'', \<lparr>description = ''same'', system_prompt = ''pa''\<rparr>),
      (''b'', \<lparr>description = ''same'', system_prompt = ''pb''\<rparr>)]"
  by (simp add: two_alike_def add_prompt_library fresh_router_def)

lemma two_alike_state:
  "prompt_names two_alike = [''a'', ''b''] \<and> prompt_embeddings two_alike = Some [[4, 1], [4, 1]]"
  by (simp add: two_alike_def add_prompt_def compute_prompt_embeddings_def fresh_router_def
      Let_def encode_def count_embedder_def)

lemma two_alike_query:
  "find_best_prompt insertion_argsort two_alike ''q'' 2 = Inr [(''b'', 5, ''pb''), (''a'', 5, ''pa'')]"
  by (simp add: find_best_prompt_def two_alike_library two_alike_state Let_def encode_def
      flatten_def dot_T_def dot_def insertion_argsort_def slice_to_def upt_rec
      two_alike_def add_prompt_def compute_prompt_embeddings_def fresh_router_def count_embedder_def)

lemma two_alike_query_downward:
  "find_best_prompt downward_ties_argsort two_alike ''q'' 2 =
     Inr [(''a'', 5, ''pa''), (''b'', 5, ''pb'')]"
  by (simp add: find_best_prompt_def two_alike_library two_alike_state Let_def encode_def
      flatten_def dot_T_def dot_def downward_ties_argsort_def slice_to_def upt_rec
      two_alike_def add_prompt_def compute_prompt_embeddings_def fresh_router_def count_embedder_def)

lemma reachable_two_topics: "reachable two_topics"
  unfolding two_topics_def by (rule reachable_load [OF reachable_fresh]) simp

lemma two_topics_library:
  "prompt_library two_topics =
     [(''code'', \<lparr>description = ''programming help'', system_prompt = ''You are a coding assistant.''\<rparr>),
      (''cooking'', \<lparr>description = ''recipes and meals'', system_prompt = ''You are a cooking assistant.''\<rparr>)]"
  by (simp add: two_topics_def load_library)

lemma two_topics_state:
  "prompt_names two_topics = [''code'', ''cooking''] \<and>
   prompt_embeddings two_topics = Some [[16, 1], [17, 1]]"
  by (simp add: two_topics_def load_prompt_library_def compute_prompt_embeddings_def
      fresh_router_def Let_def encode_def count_embedder_def)

lemma two_topics_model: "embedding_model two_topics = count_embedder"
  by (simp add: two_topics_def load_prompt_library_def fresh_router_def)

lemma two_topics_sims:
  "flatten (dot_T [[16, 1], [17, 1]] (encode count_embedder [''sort''])) = [65, 69]"
  by (simp add: encode_def flatten_def dot_T_def dot_def count_embedder_def)

lemma argsort_65_69: "insertion_argsort [65, 69] = [0, 1]"
  by (simp add: insertion_argsort_def upt_rec)

lemma two_topics_rank: "rev (insertion_argsort [65, 69]) = [1, 0]"
  by (simp add: argsort_65_69)

lemma two_topics_query:
  "find_best_prompt insertion_argsort two_topics ''sort'' k =
     collect two_topics [65, 69] (slice_to k [1, 0])"
  by (simp add: find_best_prompt_def two_topics_library two_topics_state two_topics_model
      Let_def two_topics_sims two_topics_rank)

lemma two_topics_top_1:
  "find_best_prompt insertion_argsort two_topics ''sort'' 1 =
     Inr [(''cooking'', 69, ''You are a cooking assistant.'')]"
  by (simp add: two_topics_query slice_to_def two_topics_library two_topics_state)

lemma two_topics_top_2:
  "find_best_prompt insertion_argsort two_topics ''sort'' 2 =
     Inr [(''cooking'', 69, ''You are a cooking assistant.''),
          (''code'', 65, ''You are a coding assistant.'')]"
  by (simp add: two_topics_query slice_to_def two_topics_library two_topics_state)

lemma two_topics_top_5:
  "find_best_prompt insertion_argsort two_topics ''sort'' 5 =
     Inr [(''cooking'', 69, ''You are a cooking assistant.''),
          (''code'', 65, ''You are a coding assistant.'')]"
  by (simp add: two_topics_query slice_to_def two_topics_library two_topics_state)

lemma emptied_state:
  "prompt_library emptied = [] \<and> prompt_embeddings emptied = Some [[4, 1]] \<and>
   prompt_names emptied = [''a'']"
  by (simp add: emptied_def load_prompt_library_def add_prompt_def compute_prompt_embeddings_def
      fresh_router_def Let_def encode_def count_embedder_def)

lemma one_prompt_state:
  "prompt_library one_prompt =
     [(''test_prompt'', \<lparr>description = ''Test prompt'', system_prompt = ''You are a test assistant.''\<rparr>)] \<and>
   prompt_names one_prompt = [''test_prompt''] \<and>
   prompt_embeddings one_prompt = Some [[11, 1]] \<and>
   embedding_model one_prompt = count_embedder \<and>
   openai_client one_prompt = failing_client \<and>
   openai_model one_prompt = ''gpt-3.5-turbo''"
  by (simp add: one_prompt_def add_prompt_def compute_prompt_embeddings_def fresh_router_def
      Let_def encode_def count_embedder_def)

lemma one_prompt_query:
  "find_best_prompt insertion_argsort one_prompt ''test query'' 1 =
     Inr [(''test_prompt'', 111, ''You are a test assistant.'')]"
  by (simp add: find_best_prompt_def one_prompt_state Let_def encode_def flatten_def dot_T_def
      dot_def insertion_argsort_def slice_to_def count_embedder_def)

lemma one_prompt_select:
  "select_prompt insertion_argsort one_prompt ''test query'' True None =
     Inr (''test_prompt'', Float 111, ''You are a test assistant.'')"
  by (simp add: select_prompt_def truthy_def one_prompt_query)

section \<open>The claims\<close>

subsection \<open>C1: order of the results and ties\<close>

text \<open>
  The contract of \<^verbatim>\<open>np.argsort\<close> does not fix the order of equal scores: on the same
  library and query the two sorts above return the two tied entries in opposite orders.
\<close>

lemma tie_order_open:
  "ascending_argsort insertion_argsort \<and> ascending_argsort downward_ties_argsort \<and>
   find_best_prompt insertion_argsort two_alike ''q'' 2 =
     Inr [(''b'', 5, ''pb''), (''a'', 5, ''pa'')] \<and>
   find_best_prompt downward_ties_argsort two_alike ''q'' 2 =
     Inr [(''a'', 5, ''pa''), (''b'', 5, ''pb'')]"
  by (simp add: insertion_argsort_ascending downward_ties_argsort_ascending two_alike_query
      two_alike_query_downward)

text \<open>
  Claim C1, as amended. In every state the interface can produce with a non-empty library,
  and whatever order \<^verbatim>\<open>np.argsort\<close> gives to equal values, \<^verbatim>\<open>find_best_prompt\<close> returns a
  list sorted by descending similarity score: every result is an entry of the library with
  the similarity of its description to the query, and of two results the earlier has the
  strictly higher score or the same score. The order among results of equal score is not
  determined.
\<close>

theorem ranked_by_descending_score:
  assumes "ascending_argsort np_argsort" and "reachable s" and "prompt_library s \<noteq> []"
  shows "\<exists>rs. find_best_prompt np_argsort s q k = Inr rs \<and>
              library_rows s q rs \<and> descending_any_ties rs"
proof -
  let ?lib = "prompt_library s" and ?sc = "scores s q"
  let ?idxs = "slice_to k (rev (np_argsort ?sc))"
  let ?row = "\<lambda>i. (fst (?lib ! i), ?sc ! i, system_prompt (snd (?lib ! i)))"
  have dist: "distinct (map fst ?lib)" using assms(2) by (rule reachable_distinct)
  have res: "find_best_prompt np_argsort s q k = Inr (map ?row ?idxs)"
    using assms(1) reachable_aligned [OF assms(2,3)] dist assms(3)
    by (rule find_best_prompt_aligned)
  have "\<forall>i \<in> set ?idxs. i < length ?lib"
    using ranking_bound [OF assms(1), of _ k ?sc] by (simp add: length_scores)
  with dist have rows: "library_rows s q (map ?row ?idxs)" by (rule ranking_rows)
  have "sorted_wrt (\<lambda>i j. ?sc ! j < ?sc ! i \<or> ?sc ! i = ?sc ! j) ?idxs"
    by (rule sorted_wrt_mono_rel [OF _ ranking_descending [OF assms(1)]]) auto
  then have "descending_any_ties (map ?row ?idxs)"
    by (simp add: descending_any_ties_def sorted_wrt_map)
  with res rows show ?thesis by blast
qed

text \<open>
  The amended claim at two entries with the same description, hence the same score, with
  the insertion sort for \<^verbatim>\<open>np.argsort\<close>.
\<close>

theorem ranked_by_descending_score_witness:
  "ascending_argsort insertion_argsort \<and> reachable two_alike \<and> prompt_library two_alike \<noteq> [] \<and>
   find_best_prompt insertion_argsort two_alike ''q'' 2 =
     Inr [(''b'', 5, ''pb''), (''a'', 5, ''pa'')] \<and>
   library_rows two_alike ''q'' [(''b'', 5, ''pb''), (''a'', 5, ''pa'')] \<and>
   descending_any_ties [(''b'', 5, ''pb''), (''a'', 5, ''pa'')]"
proof -
  have ne: "prompt_library two_alike \<noteq> []" by (simp add: two_alike_library)
  from ranked_by_descending_score [OF insertion_argsort_ascending reachable_two_alike ne,
      of "''q''" 2]
  show ?thesis
    using insertion_argsort_ascending reachable_two_alike ne by (simp add: two_alike_query)
qed

text \<open>
  Claim C1 as it is written fails there. \<^verbatim>\<open>np.argsort\<close> of two equal values is
  \<^verbatim>\<open>[0, 1]\<close>, as the insertion sort has it, and \<^verbatim>\<open>[::-1]\<close> turns it into \<^verbatim>\<open>[1, 0]\<close>: the
  two scores are equal and the entry inserted second, \<open>b\<close>, is returned before the entry
  inserted first, \<open>a\<close>.
\<close>

theorem ties_first_inserted_counterexample:
  "find_best_prompt insertion_argsort two_alike ''q'' 2 =
     Inr [(''b'', 5, ''pb''), (''a'', 5, ''pa'')] \<and>
   \<not> first_inserted_wins (prompt_library two_alike) [(''b'', 5, ''pb''), (''a'', 5, ''pa'')]"
  by (simp add: two_alike_query two_alike_library first_inserted_wins_def insertion_index_def)

subsection \<open>C2: scores are non-increasing\<close>

text \<open>
  Claim C2. In every state the interface can produce with a non-empty library, for every
  query and every \<open>top_k\<close> (negative ones included), and whatever order \<^verbatim>\<open>np.argsort\<close>
  gives to equal values, \<^verbatim>\<open>find_best_prompt\<close> returns a list, and each score in it is
  greater than or equal to the next.
\<close>

theorem scores_non_increasing:
  assumes "ascending_argsort np_argsort" and "reachable s" and "prompt_library s \<noteq> []"
  shows "\<exists>rs. find_best_prompt np_argsort s q k = Inr rs \<and>
              sorted_wrt (\<lambda>(n1, s1, p1) (n2, s2, p2). s2 \<le> s1) rs"
proof -
  let ?lib = "prompt_library s" and ?sc = "scores s q"
  let ?idxs = "slice_to k (rev (np_argsort ?sc))"
  let ?row = "\<lambda>i. (fst (?lib ! i), ?sc ! i, system_prompt (snd (?lib ! i)))"
  have res: "find_best_prompt np_argsort s q k = Inr (map ?row ?idxs)"
    using assms(1) reachable_aligned [OF assms(2,3)] reachable_distinct [OF assms(2)] assms(3)
    by (rule find_best_prompt_aligned)
  have "sorted_wrt (\<lambda>i j. ?sc ! j \<le> ?sc ! i) ?idxs"
    using assms(1) by (rule ranking_descending)
  then have "sorted_wrt (\<lambda>(n1, s1, p1) (n2, s2, p2). s2 \<le> s1) (map ?row ?idxs)"
    by (simp add: sorted_wrt_map)
  with res show ?thesis by blast
qed

text \<open>
  Two entries with different scores, \<open>top_k = 2\<close>.
\<close>

theorem scores_non_increasing_witness:
  "ascending_argsort insertion_argsort \<and> reachable two_topics \<and> prompt_library two_topics \<noteq> [] \<and>
   find_best_prompt insertion_argsort two_topics ''sort'' 2 =
     Inr [(''cooking'', 69, ''You are a cooking assistant.''),
          (''code'', 65, ''You are a coding assistant.'')] \<and>
   sorted_wrt (\<lambda>(n1, s1, p1) (n2, s2, p2). s2 \<le> s1)
     [(''cooking'', 69 :: real, ''You are a cooking assistant.''),
      (''code'', 65, ''You are a coding assistant.'')]"
proof -
  have ne: "prompt_library two_topics \<noteq> []" by (simp add: two_topics_library)
  from scores_non_increasing [OF insertion_argsort_ascending reachable_two_topics ne,
      of "''sort''" 2]
  show ?thesis
    using insertion_argsort_ascending reachable_two_topics ne by (simp add: two_topics_top_2)
qed

subsection \<open>C3: number of results\<close>

text \<open>
  Claim C3. In every state the interface can produce with a non-empty library of \<open>n\<close>
  entries, for every query and every \<open>top_k \<ge> 1\<close>, \<^verbatim>\<open>find_best_prompt\<close> returns exactly
  \<open>min top_k n\<close> results. No name is returned twice and every result is an entry of the
  library, with the system prompt stored under its name and the score of its description:
  nothing is padded. When \<open>top_k\<close> is at least \<open>n\<close> the returned names are all the keys of
  the library.
\<close>

theorem result_count:
  assumes "ascending_argsort np_argsort" and "reachable s" and "prompt_library s \<noteq> []"
    and "1 \<le> k"
  shows "\<exists>rs. find_best_prompt np_argsort s q k = Inr rs \<and>
              length rs = min (nat k) (length (prompt_library s)) \<and>
              distinct (map fst rs) \<and>
              library_rows s q rs \<and>
              (int (length (prompt_library s)) \<le> k \<longrightarrow>
                 set (map fst rs) = fst ` set (prompt_library s))"
proof -
  let ?lib = "prompt_library s" and ?sc = "scores s q"
  let ?idxs = "slice_to k (rev (np_argsort ?sc))"
  let ?row = "\<lambda>i. (fst (?lib ! i), ?sc ! i, system_prompt (snd (?lib ! i)))"
  have dist: "distinct (map fst ?lib)" using assms(2) by (rule reachable_distinct)
  have res: "find_best_prompt np_argsort s q k = Inr (map ?row ?idxs)"
    using assms(1) reachable_aligned [OF assms(2,3)] dist assms(3)
    by (rule find_best_prompt_aligned)
  have bound: "\<forall>i \<in> set ?idxs. i < length ?lib"
    using ranking_bound [OF assms(1), of _ k ?sc] by (simp add: length_scores)
  have len: "length (map ?row ?idxs) = min (nat k) (length ?lib)"
    using assms(4) by (simp add: length_slice_to argsort_length [OF assms(1)] length_scores)
  have names: "distinct (map fst (map ?row ?idxs))"
    using dist ranking_distinct [OF assms(1)] bound by (rule ranking_names_distinct)
  have rows: "library_rows s q (map ?row ?idxs)"
    using dist bound by (rule ranking_rows)
  have all: "set (map fst (map ?row ?idxs)) = fst ` set ?lib" if "int (length ?lib) \<le> k"
  proof -
    from that have "?idxs = rev (np_argsort ?sc)"
      by (simp add: slice_to_all argsort_length [OF assms(1)] length_scores)
    then have "set ?idxs = {0..<length ?lib}"
      by (simp add: argsort_set [OF assms(1)] length_scores)
    then show ?thesis by (simp only: ranking_names_all keys_by_index)
  qed
  from res len names rows all show ?thesis by blast
qed

text \<open>
  \<open>top_k = 5\<close> against a library of two entries gives its two entries and nothing else.
\<close>

theorem result_count_witness:
  "ascending_argsort insertion_argsort \<and> reachable two_topics \<and> prompt_library two_topics \<noteq> [] \<and>
   (1::int) \<le> 5 \<and> int (length (prompt_library two_topics)) \<le> 5 \<and>
   find_best_prompt insertion_argsort two_topics ''sort'' 5 =
     Inr [(''cooking'', 69, ''You are a cooking assistant.''),
          (''code'', 65, ''You are a coding assistant.'')] \<and>
   fst ` set (prompt_library two_topics) = {''cooking'', ''code''}"
proof -
  have ne: "prompt_library two_topics \<noteq> []" by (simp add: two_topics_library)
  have k: "(1::int) \<le> 5" by simp
  from result_count [OF insertion_argsort_ascending reachable_two_topics ne k, of "''sort''"]
  show ?thesis
    using insertion_argsort_ascending reachable_two_topics ne
    by (auto simp: two_topics_top_5 two_topics_library)
qed

subsection \<open>C4: the score is the raw dot product\<close>

text \<open>
  Claim C4. Whenever \<^verbatim>\<open>find_best_prompt\<close> returns, every result \<open>(name, score, payload)\<close>
  comes from an index \<open>i\<close> of the cached matrix: \<open>name\<close> is the \<open>i\<close>-th cached name and
  \<open>score\<close> is \<open>dot\<close> of row \<open>i\<close> with the embedding of the query, the plain sum of
  products of the components, with neither vector normalised.
\<close>

theorem score_is_dot_product:
  assumes "find_best_prompt np_argsort s q k = Inr rs" and "(name, score, payload) \<in> set rs"
  shows "\<exists>m i. prompt_embeddings s = Some m \<and> i < length m \<and> i < length (prompt_names s) \<and>
               name = prompt_names s ! i \<and> score = dot (m ! i) (embedding_model s q)"
proof -
  from assms(1) obtain m where m: "prompt_embeddings s = Some m"
    by (auto simp: find_best_prompt_def split: if_splits)
  let ?sims = "map (\<lambda>p. dot p (embedding_model s q)) m"
  let ?idxs = "slice_to k (rev (np_argsort ?sims))"
  from assms(1) m have "collect s ?sims ?idxs = Inr rs"
    by (simp add: find_best_prompt_def Let_def similarities_rows split: if_splits)
  from collect_results [OF this] assms(2)
  obtain i where i: "i < length ?sims" "i < length (prompt_names s)"
    "name = prompt_names s ! i" "score = ?sims ! i"
    by auto
  from i(1) have "i < length m" by simp
  with i m show ?thesis by auto
qed

text \<open>
  Row \<open>[17, 1]\<close> against the query vector \<open>[4, 1]\<close> scores 69, far outside the range of a
  cosine.
\<close>

theorem score_is_dot_product_witness:
  "find_best_prompt insertion_argsort two_topics ''sort'' 1 =
     Inr [(''cooking'', 69, ''You are a cooking assistant.'')] \<and>
   prompt_embeddings two_topics = Some [[16, 1], [17, 1]] \<and>
   prompt_names two_topics ! 1 = ''cooking'' \<and>
   embedding_model two_topics ''sort'' = [4, 1] \<and>
   dot [17, 1] [4, 1] = 69"
proof -
  have "(''cooking'', 69, ''You are a cooking assistant.'') \<in>
        set [(''cooking'', 69::real, ''You are a cooking assistant.'')]"
    by simp
  from score_is_dot_product [OF two_topics_top_1 this]
  show ?thesis
    by (simp add: two_topics_top_1 two_topics_state two_topics_model count_embedder_def dot_def)
qed

subsection \<open>C5: the empty library\<close>

text \<open>
  Claim C5. With an empty library \<^verbatim>\<open>find_best_prompt\<close> raises the no-prompts-loaded
  error for every query and every \<open>top_k\<close>; with a non-empty library and a computed
  matrix it never raises that error.
\<close>

theorem empty_catalog_error:
  "(prompt_library s = [] \<longrightarrow> find_best_prompt np_argsort s q k = Inl no_prompts_loaded) \<and>
   (prompt_library s \<noteq> [] \<and> prompt_embeddings s \<noteq> None \<longrightarrow>
      find_best_prompt np_argsort s q k \<noteq> Inl no_prompts_loaded)"
  by (simp add: find_best_prompt_def Let_def no_prompts_loaded_def collect_no_value_error)

text \<open>
  A freshly constructed router, and a router with two entries.
\<close>

theorem empty_catalog_error_witness:
  "prompt_library fresh_router = [] \<and>
   find_best_prompt insertion_argsort fresh_router ''test query'' 1 = Inl no_prompts_loaded \<and>
   prompt_library two_topics \<noteq> [] \<and> prompt_embeddings two_topics \<noteq> None \<and>
   find_best_prompt insertion_argsort two_topics ''sort'' 1 \<noteq> Inl no_prompts_loaded"
  using empty_catalog_error [of fresh_router insertion_argsort "''test query''" 1]
    empty_catalog_error [of two_topics insertion_argsort "''sort''" 1]
  by (simp add: fresh_router_def two_topics_library two_topics_state)

subsection \<open>C6: one matrix row per entry\<close>

text \<open>
  Claim C6, as amended. After \<^verbatim>\<open>add_prompt\<close>, and after \<^verbatim>\<open>load_prompt_library\<close> of a
  non-empty dictionary, the cached matrix has exactly one row per library entry, the name
  list has one name per entry, the \<open>i\<close>-th name is the key of the \<open>i\<close>-th entry and row
  \<open>i\<close> is the embedding of that entry's description: the whole cache is rebuilt from the
  new library. \<^verbatim>\<open>load_prompt_library\<close> of an empty dictionary leaves the matrix and the
  name list as they were.
\<close>

theorem matrix_rows_after_mutation:
  assumes "s' = add_prompt name descr sys_prompt s \<or>
           (prompts \<noteq> [] \<and> s' = load_prompt_library prompts s)"
  shows "(\<exists>m. prompt_embeddings s' = Some m \<and>
              length m = length (prompt_library s') \<and>
              length (prompt_names s') = length (prompt_library s') \<and>
              (\<forall>i < length (prompt_library s').
                 prompt_names s' ! i = fst (prompt_library s' ! i) \<and>
                 m ! i = embedding_model s' (description (snd (prompt_library s' ! i))))) \<and>
         prompt_embeddings (load_prompt_library [] s) = prompt_embeddings s \<and>
         prompt_names (load_prompt_library [] s) = prompt_names s"
proof -
  from assms have "aligned s'"
  proof
    assume "s' = add_prompt name descr sys_prompt s"
    then show ?thesis by (simp add: add_prompt_aligned)
  next
    assume "prompts \<noteq> [] \<and> s' = load_prompt_library prompts s"
    then show ?thesis by (simp add: load_aligned)
  qed
  then have rows: "\<exists>m. prompt_embeddings s' = Some m \<and>
              length m = length (prompt_library s') \<and>
              length (prompt_names s') = length (prompt_library s') \<and>
              (\<forall>i < length (prompt_library s').
                 prompt_names s' ! i = fst (prompt_library s' ! i) \<and>
                 m ! i = embedding_model s' (description (snd (prompt_library s' ! i))))"
    by (rule aligned_rows)
  show ?thesis
    using rows load_empty_unchanged [of s] by (intro conjI) simp_all
qed

text \<open>
  Loading two entries into a fresh router.
\<close>

theorem matrix_rows_after_mutation_witness:
  "[(''code'', \<lparr>description = ''programming help'', system_prompt = ''You are a coding assistant.''\<rparr>),
    (''cooking'', \<lparr>description = ''recipes and meals'', system_prompt = ''You are a cooking assistant.''\<rparr>)] \<noteq> [] \<and>
   prompt_embeddings two_topics = Some [[16, 1], [17, 1]] \<and>
   length (prompt_library two_topics) = 2 \<and>
   prompt_names two_topics = [''code'', ''cooking''] \<and>
   embedding_model two_topics ''programming help'' = [16, 1] \<and>
   embedding_model two_topics ''recipes and meals'' = [17, 1] \<and>
   prompt_embeddings (load_prompt_library [] fresh_router) = prompt_embeddings fresh_router"
proof -
  have "two_topics = add_prompt n d p fresh_router \<or>
     ([(''code'', \<lparr>description = ''programming help'', system_prompt = ''You are a coding assistant.''\<rparr>),
       (''cooking'', \<lparr>description = ''recipes and meals'', system_prompt = ''You are a cooking assistant.''\<rparr>)] \<noteq> [] \<and>
      two_topics =
        load_prompt_library
          [(''code'', \<lparr>description = ''programming help'', system_prompt = ''You are a coding assistant.''\<rparr>),
           (''cooking'', \<lparr>description = ''recipes and meals'', system_prompt = ''You are a cooking assistant.''\<rparr>)]
          fresh_router)" for n d p
    by (simp add: two_topics_def)
  from matrix_rows_after_mutation [OF this]
  show ?thesis
    by (simp add: two_topics_state two_topics_library two_topics_model count_embedder_def
        load_empty_unchanged)
qed

text \<open>
  Claim C6 as it is written fails for a bulk load that replaces a non-empty library by
  an empty one: the library has no entry, the matrix still has the row of the old one.
\<close>

theorem stale_matrix_counterexample:
  "prompt_library emptied = [] \<and> prompt_embeddings emptied = Some [[4, 1]] \<and>
   prompt_names emptied = [''a''] \<and>
   length (the (prompt_embeddings emptied)) \<noteq> length (prompt_library emptied)"
  by (simp add: emptied_state)

subsection \<open>C7: overwriting an entry\<close>

text \<open>
  Claim C7. \<^verbatim>\<open>add_prompt\<close> with a name the library already has keeps the size of the
  library, stores the new description and system prompt under that name, rebuilds the
  cache from the new library, and afterwards \<^verbatim>\<open>get_prompt_details\<close> returns the new
  entry and \<^verbatim>\<open>find_best_prompt\<close> returns, for that name, only the new system prompt
  with a score computed from the new description. Nothing is raised.
\<close>

theorem add_prompt_overwrites:
  assumes "ascending_argsort np_argsort"
    and "distinct (map fst (prompt_library s))" and "name \<in> fst ` set (prompt_library s)"
  shows "length (prompt_library (add_prompt name descr sys_prompt s)) = length (prompt_library s) \<and>
         get_prompt_details (add_prompt name descr sys_prompt s) name =
           Some \<lparr>description = descr, system_prompt = sys_prompt\<rparr> \<and>
         aligned (add_prompt name descr sys_prompt s) \<and>
         (\<exists>rs. find_best_prompt np_argsort (add_prompt name descr sys_prompt s) q k = Inr rs \<and>
            (\<forall>sc pl. (name, sc, pl) \<in> set rs \<longrightarrow>
               pl = sys_prompt \<and>
               sc = dot (embedding_model s descr) (embedding_model s q)))"
proof -
  let ?s' = "add_prompt name descr sys_prompt s"
  let ?new = "\<lparr>description = descr, system_prompt = sys_prompt\<rparr>"
  let ?lib = "prompt_library ?s'"
  let ?row = "\<lambda>i. (fst (?lib ! i), scores ?s' q ! i, system_prompt (snd (?lib ! i)))"
  have lib: "?lib = setitem name ?new (prompt_library s)" by (rule add_prompt_library)
  have dist: "distinct (map fst ?lib)" using assms(2) by (simp add: lib distinct_setitem)
  have ne: "?lib \<noteq> []" by (simp add: lib setitem_nonempty)
  have al: "aligned ?s'" by (rule add_prompt_aligned)
  have model: "embedding_model ?s' = embedding_model s" by (simp add: add_prompt_def)
  have look: "map_of ?lib name = Some ?new" by (simp add: lib map_of_setitem)
  have res: "find_best_prompt np_argsort ?s' q k =
      Inr (map ?row (slice_to k (rev (np_argsort (scores ?s' q)))))"
    using assms(1) al dist ne by (rule find_best_prompt_aligned)
  have "pl = sys_prompt \<and> sc = dot (embedding_model s descr) (embedding_model s q)"
    if "(name, sc, pl) \<in> set (map ?row (slice_to k (rev (np_argsort (scores ?s' q)))))" for sc pl
  proof -
    from that obtain i where i: "i \<in> set (slice_to k (rev (np_argsort (scores ?s' q))))"
      and eq: "name = fst (?lib ! i)" "sc = scores ?s' q ! i" "pl = system_prompt (snd (?lib ! i))"
      by auto
    from i have bound: "i < length ?lib"
      using ranking_bound [OF assms(1), of i k "scores ?s' q"] by (simp add: length_scores)
    then have "(name, snd (?lib ! i)) \<in> set ?lib" using eq(1) by (metis nth_mem prod.collapse)
    with dist have "map_of ?lib name = Some (snd (?lib ! i))" by (simp only: map_of_eq_Some_iff)
    with look have data: "snd (?lib ! i) = ?new" by simp
    have "scores ?s' q ! i =
        dot (embedding_model ?s' (description (snd (?lib ! i)))) (embedding_model ?s' q)"
      using bound by (simp add: scores_def case_prod_unfold)
    with eq data model show ?thesis by simp
  qed
  with res have "\<exists>rs. find_best_prompt np_argsort ?s' q k = Inr rs \<and>
            (\<forall>sc pl. (name, sc, pl) \<in> set rs \<longrightarrow>
               pl = sys_prompt \<and>
               sc = dot (embedding_model s descr) (embedding_model s q))"
    by blast
  moreover have "length ?lib = length (prompt_library s)"
    using assms(3) by (simp add: lib length_setitem_present)
  moreover have "get_prompt_details ?s' name = Some ?new"
    using look by (simp add: get_prompt_details_def)
  ultimately show ?thesis using al by (intro conjI)
qed

text \<open>
  Overwriting entry \<open>a\<close> of a two-entry library.
\<close>

theorem add_prompt_overwrites_witness:
  "ascending_argsort insertion_argsort \<and> distinct (map fst (prompt_library two_alike)) \<and>
   ''a'' \<in> fst ` set (prompt_library two_alike) \<and>
   get_prompt_details two_alike ''a'' = Some \<lparr>description = ''same'', system_prompt = ''pa''\<rparr> \<and>
   length (prompt_library (add_prompt ''a'' ''newer'' ''pa2'' two_alike)) =
     length (prompt_library two_alike) \<and>
   get_prompt_details (add_prompt ''a'' ''newer'' ''pa2'' two_alike) ''a'' =
     Some \<lparr>description = ''newer'', system_prompt = ''pa2''\<rparr>"
proof -
  have d: "distinct (map fst (prompt_library two_alike))" by (simp add: two_alike_library)
  have m: "''a'' \<in> fst ` set (prompt_library two_alike)" by (simp add: two_alike_library)
  have old: "get_prompt_details two_alike ''a'' =
      Some \<lparr>description = ''same'', system_prompt = ''pa''\<rparr>"
    by (simp add: get_prompt_details_def two_alike_library)
  from add_prompt_overwrites [OF insertion_argsort_ascending d m, of "''newer''" "''pa2''" "''q''" 1]
  show ?thesis using insertion_argsort_ascending d m old by simp
qed

subsection \<open>C8: details of a missing name\<close>

text \<open>
  Claim C8. \<^verbatim>\<open>get_prompt_details\<close> returns \<open>None\<close> for every name that is not a key of
  the library, and so for a name of the previous library once \<^verbatim>\<open>load_prompt_library\<close>
  has replaced it by a dictionary without that name. It has no raising branch.
\<close>

theorem missing_name_absent:
  "(name \<notin> fst ` set (prompt_library s) \<longrightarrow> get_prompt_details s name = None) \<and>
   (name \<in> fst ` set (prompt_library s) \<and> name \<notin> fst ` set prompts \<longrightarrow>
      get_prompt_details (load_prompt_library prompts s) name = None)"
  by (simp add: get_prompt_details_def map_of_eq_None_iff load_library)

text \<open>
  A name that never existed, and a name of a library that has been replaced.
\<close>

theorem missing_name_absent_witness:
  "''nonexistent'' \<notin> fst ` set (prompt_library two_topics) \<and>
   get_prompt_details two_topics ''nonexistent'' = None \<and>
   ''code'' \<in> fst ` set (prompt_library two_topics) \<and>
   ''code'' \<notin> fst ` set [(''poetry'', \<lparr>description = ''verse'', system_prompt = ''You are a poet.''\<rparr>)] \<and>
   get_prompt_details
     (load_prompt_library
        [(''poetry'', \<lparr>description = ''verse'', system_prompt = ''You are a poet.''\<rparr>)] two_topics)
     ''code'' = None"
  using missing_name_absent [of "''nonexistent''" two_topics]
    missing_name_absent [of "''code''" two_topics
      "[(''poetry'', \<lparr>description = ''verse'', system_prompt = ''You are a poet.''\<rparr>)]"]
  by (simp add: two_topics_library)

subsection \<open>C9: a failing generation call\<close>

text \<open>
  Claim C9. Once \<^verbatim>\<open>generate_response\<close> has chosen its system prompt, an exception of the
  generation call is caught: the function returns a dictionary with the fields
  \<^verbatim>\<open>error\<close>, \<^verbatim>\<open>matched_prompt\<close>, \<^verbatim>\<open>similarity_score\<close> and \<^verbatim>\<open>system_prompt_used\<close>
  and does not raise.
\<close>

theorem generation_failure_reported:
  assumes "select_prompt np_argsort s user_query use_best_prompt custom_system_prompt =
             Inr (matched_prompt, similarity_score, sys_prompt)"
    and "openai_client s (openai_model s) [(''system'', sys_prompt), (''user'', user_query)] =
           Raises e"
  shows "generate_response np_argsort s user_query use_best_prompt custom_system_prompt =
           Inr [(''error'', Str e),
                (''matched_prompt'', Str matched_prompt),
                (''similarity_score'', similarity_score),
                (''system_prompt_used'', Str sys_prompt)]"
  using assms by (simp add: generate_response_def error_result_def)

text \<open>
  The router of \<^verbatim>\<open>test_generate_response_error\<close>: one prompt, a client that raises
  \<^verbatim>\<open>Exception("API Error")\<close>.
\<close>

theorem generation_failure_reported_witness:
  "generate_response insertion_argsort one_prompt ''test query'' True None =
     Inr [(''error'', Str ''API Error''),
          (''matched_prompt'', Str ''test_prompt''),
          (''similarity_score'', Float 111),
          (''system_prompt_used'', Str ''You are a test assistant.'')]"
proof -
  have "openai_client one_prompt (openai_model one_prompt)
          [(''system'', ''You are a test assistant.''), (''user'', ''test query'')] =
        Raises ''API Error''"
    by (simp add: one_prompt_state failing_client_def)
  from generation_failure_reported [OF one_prompt_select this] show ?thesis .
qed

subsection \<open>C10: loading an empty dictionary\<close>

text \<open>
  Claim C10. \<^verbatim>\<open>load_prompt_library\<close> of an empty dictionary leaves the matrix and the
  name list untouched, whatever they held, and every \<^verbatim>\<open>find_best_prompt\<close> on the
  resulting state raises the no-prompts-loaded error: the emptiness of the library is
  tested before the cache is read.
\<close>

theorem empty_load_keeps_cache:
  "prompt_embeddings (load_prompt_library [] s) = prompt_embeddings s \<and>
   prompt_names (load_prompt_library [] s) = prompt_names s \<and>
   find_best_prompt np_argsort (load_prompt_library [] s) q k = Inl no_prompts_loaded"
  by (simp add: load_empty_unchanged find_best_prompt_def load_library)

text \<open>
  After one entry was added: its row and its name stay cached, and the query raises.
\<close>

theorem empty_load_keeps_cache_witness:
  "prompt_embeddings emptied = Some [[4, 1]] \<and> prompt_names emptied = [''a''] \<and>
   prompt_library emptied = [] \<and>
   find_best_prompt insertion_argsort emptied ''q'' 1 = Inl no_prompts_loaded"
  using empty_load_keeps_cache [of "add_prompt ''a'' ''same'' ''pa'' fresh_router"
      insertion_argsort "''q''" 1]
  by (simp add: emptied_def [symmetric] emptied_state)

end
